theory Spec2Isabelle
  imports Main "HOL-Library.Word"
begin

section \<open>Data model\<close>

text \<open>
  The dispatcher of the \<^verbatim>\<open>network\<close> package: \<^verbatim>\<open>handlerService\<close> with its methods
  \<^verbatim>\<open>Register\<close>, \<^verbatim>\<open>Handle\<close>, \<^verbatim>\<open>processPacket\<close>, \<^verbatim>\<open>processMessage\<close>, \<^verbatim>\<open>localProcess\<close> and
  \<^verbatim>\<open>remoteProcess\<close>. Go errors are their messages (\<open>string option\<close>, \<open>None\<close> for
  \<^verbatim>\<open>nil\<close>); a pointer that may be \<^verbatim>\<open>nil\<close> is an \<open>option\<close>; what the code does to the
  outside world (log lines, sends on the agent, calls of collaborators) is returned as a
  list of events, in program order.
\<close>

type_synonym byte = "8 word"

subsection \<open>Packets (package packet)\<close>

record packet =
  PType :: byte
  PLength :: nat
  PData :: "byte list"

definition HeadLength :: nat where
  "HeadLength = 4"

definition Handshake :: byte where
  "Handshake = 0x01"

definition HandshakeAck :: byte where
  "HandshakeAck = 0x02"

definition Heartbeat :: byte where
  "Heartbeat = 0x03"

definition Data :: byte where
  "Data = 0x04"

definition Kick :: byte where
  "Kick = 0x05"

datatype packet_error = ShortHeader | BadType

definition be24 :: "nat \<Rightarrow> byte list" where
  "be24 n = [of_nat (n div 65536), of_nat (n div 256), of_nat n]"

definition bytesToInt :: "byte \<Rightarrow> byte \<Rightarrow> byte \<Rightarrow> nat" where
  "bytesToInt b1 b2 b3 = unat b1 * 65536 + unat b2 * 256 + unat b3"

text \<open>
  Modelled from the spec: \<^verbatim>\<open>packet.Pack\<close>, whose source is not among the files. The spec
  gives \<^verbatim>\<open>Type || be24(len(Data)) || Data\<close> and names no failure; the Go signature
  returns an error beside the bytes, so the model returns the pair with no error.
\<close>

definition Pack :: "packet \<Rightarrow> byte list \<times> string option" where
  "Pack p = (PType p # be24 (length (PData p)) @ PData p, None)"

text \<open>
  Modelled from the spec: \<^verbatim>\<open>packet.Unpack\<close>, whose source is not among the files. It
  returns the Go triple (packet, remainder, error). Fewer than four bytes: \<open>ShortHeader\<close>.
  A type byte outside 1..5: \<open>BadType\<close>. A body that is not yet fully present: no packet,
  the buffer unchanged, no error. Otherwise the packet and the trailing bytes. The spec
  does not say which remainder comes with an error; the model returns the empty slice.
\<close>

definition Unpack :: "byte list \<Rightarrow> packet option \<times> byte list \<times> packet_error option" where
  "Unpack buf =
     (if length buf < HeadLength then (None, [], Some ShortHeader)
      else
        let t = buf ! 0; n = bytesToInt (buf ! 1) (buf ! 2) (buf ! 3) in
        if unat t < unat Handshake \<or> unat Kick < unat t then (None, [], Some BadType)
        else if length buf < HeadLength + n then (None, buf, None)
        else (Some \<lparr>PType = t, PLength = n, PData = take n (drop HeadLength buf)\<rparr>,
              drop (HeadLength + n) buf, None))"

subsection \<open>Messages, routes, sessions, agents\<close>

datatype message_type = Request | Notify | Response | Push

record message =
  MType :: message_type
  ID :: nat
  Route :: string
  MData :: "byte list"

record route =
  ServerType :: string
  Service :: string
  Method :: string

record session =
  Id :: nat
  Uid :: nat
  LastID :: nat

datatype net_status = statusStart | statusHandshake | statusWorking | statusClosed

record agent =
  status :: net_status
  session :: session

text \<open>
  Modelled from the spec: \<^verbatim>\<open>agent.close\<close>, whose source is not among the files; the
  spec's state machine takes every state to \<open>closed\<close>.
\<close>

definition agent_close :: "agent \<Rightarrow> agent" where
  "agent_close a = a\<lparr>status := statusClosed\<rparr>"

text \<open>
  Modelled from the spec: \<^verbatim>\<open>route.Decode\<close>, whose source is not among the files. The
  string is split on dots; two components leave the server type empty, three fill all
  fields, any other shape is an error.
\<close>

fun splitDots :: "string \<Rightarrow> string list" where
  "splitDots [] = [[]]"
| "splitDots (c # cs) =
     (if c = CHR ''.'' then [] # splitDots cs
      else (case splitDots cs of
              [] \<Rightarrow> [[c]]
            | w # ws \<Rightarrow> (c # w) # ws))"

definition route_Decode :: "string \<Rightarrow> string + route" where
  "route_Decode str =
     (case splitDots str of
        [sv, m] \<Rightarrow> Inr \<lparr>ServerType = [], Service = sv, Method = m\<rparr>
      | [t, sv, m] \<Rightarrow> Inr \<lparr>ServerType = t, Service = sv, Method = m\<rparr>
      | _ \<Rightarrow> Inl ''BadRoute'')"

subsection \<open>Handler registry\<close>

text \<open>
  The second argument a handler receives: the payload bytes when the method is
  \<^verbatim>\<open>raw\<close>, otherwise the fresh instance of the declared type that the serializer filled
  from the payload (kept as the type and the bytes it was filled from).
\<close>

datatype arg = RawArg "byte list" | ObjArg string "byte list"

text \<open>
  What \<^verbatim>\<open>m.method.Func.Call\<close> does (the field \<open>methodFunc\<close>, the method bound to its
  receiver): the user's method either panics (with the value as \<^verbatim>\<open>%+v\<close> prints it) or
  returns, with its error result (\<open>None\<close> for \<^verbatim>\<open>nil\<close> and for a method without
  results). The method holds the session pointer, so it also leaves a session behind.
\<close>

datatype outcome = Panics string | Returns "string option"

record handlerMethod =
  methodFunc :: "session \<Rightarrow> arg \<Rightarrow> outcome \<times> session"
  dataType :: string
  raw :: bool

text \<open>
  A Go map from method names to method pointers, as the list of its entries: \<open>map_of\<close>
  reads it, and it has no keys exactly when the list is empty.
\<close>

type_synonym method_table = "(string \<times> handlerMethod option) list"

record service =
  name :: string
  svc_typ :: string
  handlerMethod :: method_table

text \<open>\<^verbatim>\<open>serviceMap\<close> is \<open>None\<close> while the Go map is \<^verbatim>\<open>nil\<close>.\<close>

record handlerService =
  serviceMap :: "(string \<rightharpoonup> service option) option"

definition newHandlerService :: handlerService where
  "newHandlerService = \<lparr>serviceMap = Some Map.empty\<rparr>"

text \<open>Reading a Go map: a \<^verbatim>\<open>nil\<close> map has no keys.\<close>

definition services :: "handlerService \<Rightarrow> string \<rightharpoonup> service option" where
  "services hs = (case serviceMap hs of None \<Rightarrow> Map.empty | Some m \<Rightarrow> m)"

text \<open>
  What reflection tells \<^verbatim>\<open>Register\<close> about its argument: the type as a string, the
  name of the type behind the pointer, and the method tables that
  \<^verbatim>\<open>suitableHandlerMethods\<close> (not among the files) finds for the type and for the pointer
  to it.
\<close>

record component =
  comp_typ :: string
  comp_name :: string
  comp_methods :: method_table
  comp_ptr_methods :: method_table

text \<open>
  \<^verbatim>\<open>Register\<close>, with \<^verbatim>\<open>isExported\<close> (not among the files) as a parameter. The result
  is the handler service after the call and the error returned.
\<close>

definition Register ::
  "(string \<Rightarrow> bool) \<Rightarrow> handlerService \<Rightarrow> component \<Rightarrow> handlerService \<times> string option" where
  "Register isExported hs0 rcvr =
     (let hs = (if serviceMap hs0 = None then hs0\<lparr>serviceMap := Some Map.empty\<rparr> else hs0);
          sname = comp_name rcvr
      in
      if sname = [] then
        (hs, Some (''handler.Register: no service name for type '' @ comp_typ rcvr))
      else if \<not> isExported sname then
        (hs, Some (''handler.Register: type '' @ sname @ '' is not exported''))
      else if services hs sname \<noteq> None then
        (hs, Some (''handler: service already defined: '' @ sname))
      else if length (comp_methods rcvr) = 0 then
        (hs, Some (if length (comp_ptr_methods rcvr) \<noteq> 0
                   then ''handler.Register: type '' @ sname @
                        '' has no exported methods of suitable type (hint: pass a pointer to value of that type)''
                   else ''handler.Register: type '' @ sname @
                        '' has no exported methods of suitable type''))
      else
        (hs\<lparr>serviceMap := Some ((services hs)(sname \<mapsto>
              Some \<lparr>name = sname, svc_typ = comp_typ rcvr, handlerMethod = comp_methods rcvr\<rparr>))\<rparr>,
         None))"

section \<open>The dispatcher\<close>

datatype log_level = Debug | Info | Error

datatype rpc_kind = Sys | User

text \<open>
  What the dispatcher does to the outside: a log line, a call \<^verbatim>\<open>a.Send(bytes)\<close>, a call
  \<^verbatim>\<open>a.close()\<close>, the start of \<^verbatim>\<open>go a.heartbeat()\<close>, the call of a handler method
  (service, method, the session handed over, the argument) and a call
  \<^verbatim>\<open>cluster.Call(kind, route, session, payload)\<close>.
\<close>

datatype event =
    ELog log_level string
  | ESend "byte list"
  | EClose
  | EHeartbeat
  | EInvoke string string session arg
  | ECall rpc_kind route session "byte list"

text \<open>
  The collaborators whose source is not among the files, as parameters:
  \<^verbatim>\<open>appConfig.Type\<close>; the JSON number that \<^verbatim>\<open>json.Marshal\<close> prints for
  \<^verbatim>\<open>heartbeatInternal.Seconds()\<close>; \<^verbatim>\<open>message.Decode\<close>; \<^verbatim>\<open>msg.String()\<close>;
  \<^verbatim>\<open>route.Decode\<close>; \<^verbatim>\<open>serializer.Deserialize\<close> (payload, declared type); \<^verbatim>\<open>cluster.Call\<close>
  (reply bytes and error); and whether \<^verbatim>\<open>a.Send\<close> fails.
\<close>

record env =
  appType :: string
  heartbeatJSON :: string
  msgDecode :: "byte list \<Rightarrow> string + message"
  msgString :: "message \<Rightarrow> string"
  routeDecode :: "string \<Rightarrow> string + route"
  deserialize :: "byte list \<Rightarrow> string \<Rightarrow> string option"
  clusterCall :: "rpc_kind \<Rightarrow> route \<Rightarrow> session \<Rightarrow> byte list \<Rightarrow> byte list \<times> string option"
  agentSend :: "agent \<Rightarrow> byte list \<Rightarrow> string option"

subsection \<open>localProcess and remoteProcess\<close>

text \<open>
  Both return the session they leave, the events, and the value of a panic that
  escapes them (\<open>None\<close> when they return).
\<close>

definition callMethod ::
  "string \<Rightarrow> string \<Rightarrow> handlerMethod \<Rightarrow> session \<Rightarrow> arg \<Rightarrow> session \<times> event list \<times> string option" where
  "callMethod sv mt m s d =
     (case methodFunc m s d of
        (Panics v, s') \<Rightarrow> (s', [EInvoke sv mt s d], Some v)
      | (Returns None, s') \<Rightarrow> (s', [EInvoke sv mt s d], None)
      | (Returns (Some e), s') \<Rightarrow> (s', [EInvoke sv mt s d, ELog Error e], None))"

definition localProcess ::
  "env \<Rightarrow> handlerService \<Rightarrow> session \<Rightarrow> route \<Rightarrow> message \<Rightarrow> session \<times> event list \<times> string option" where
  "localProcess env hs s r msg =
     (case services hs (Service r) of
        None \<Rightarrow> (s, [ELog Info (''handler: service: '' @ Service r @ '' not found'')], None)
      | Some None \<Rightarrow> (s, [ELog Info (''handler: service: '' @ Service r @ '' not found'')], None)
      | Some (Some sv) \<Rightarrow>
          (case map_of (handlerMethod sv) (Method r) of
             None \<Rightarrow>
               (s, [ELog Info (''handler: '' @ Service r @ '' does not contain method: '' @ Method r)], None)
           | Some None \<Rightarrow>
               (s, [ELog Info (''handler: '' @ Service r @ '' does not contain method: '' @ Method r)], None)
           | Some (Some m) \<Rightarrow>
               if raw m then callMethod (Service r) (Method r) m s (RawArg (MData msg))
               else
                 (case deserialize env (MData msg) (dataType m) of
                    Some e \<Rightarrow> (s, [ELog Error (''deserialize error: '' @ e)], None)
                  | None \<Rightarrow>
                      callMethod (Service r) (Method r) m s (ObjArg (dataType m) (MData msg)))))"

definition remoteProcess ::
  "env \<Rightarrow> session \<Rightarrow> route \<Rightarrow> message \<Rightarrow> session \<times> event list \<times> string option" where
  "remoteProcess env s r msg =
     (case snd (clusterCall env Sys r s (MData msg)) of
        None \<Rightarrow> (s, [ECall Sys r s (MData msg)], None)
      | Some e \<Rightarrow> (s, [ECall Sys r s (MData msg), ELog Error e], None))"

subsection \<open>processMessage\<close>

text \<open>The body of \<^verbatim>\<open>processMessage\<close>, below its deferred function.\<close>

definition routeMessage ::
  "env \<Rightarrow> handlerService \<Rightarrow> session \<Rightarrow> message \<Rightarrow> session \<times> event list \<times> string option" where
  "routeMessage env hs s msg =
     (case routeDecode env (Route msg) of
        Inl e \<Rightarrow> (s, [ELog Debug (msgString env msg), ELog Error e], None)
      | Inr r0 \<Rightarrow>
          let r = (if ServerType r0 = [] then r0\<lparr>ServerType := appType env\<rparr> else r0);
              (s', evs, pan) =
                (if ServerType r = appType env then localProcess env hs s r msg
                 else remoteProcess env s r msg)
          in (s', ELog Debug (msgString env msg) # evs, pan))"

definition processMessageBody ::
  "env \<Rightarrow> handlerService \<Rightarrow> session \<Rightarrow> message \<Rightarrow> session \<times> event list \<times> string option" where
  "processMessageBody env hs s msg =
     (case MType msg of
        Request \<Rightarrow> routeMessage env hs (s\<lparr>LastID := ID msg\<rparr>) msg
      | Notify \<Rightarrow> routeMessage env hs (s\<lparr>LastID := 0\<rparr>) msg
      | _ \<Rightarrow> (s, [ELog Error ''invalid message type''], None))"

text \<open>
  The deferred function of \<^verbatim>\<open>processMessage\<close>: it recovers a panic and logs it, and
  \<^verbatim>\<open>processMessage\<close> returns to its caller either way.
\<close>

definition recoverPanic :: "session \<times> event list \<times> string option \<Rightarrow> session \<times> event list" where
  "recoverPanic res =
     (case res of
        (s', evs, None) \<Rightarrow> (s', evs)
      | (s', evs, Some v) \<Rightarrow> (s', evs @ [ELog Error (''processMessage Error: '' @ v)]))"

definition processMessage ::
  "env \<Rightarrow> handlerService \<Rightarrow> session \<Rightarrow> message \<Rightarrow> session \<times> event list" where
  "processMessage env hs s msg = recoverPanic (processMessageBody env hs s msg)"

subsection \<open>processPacket and the processor\<close>

text \<open>
  The body of the handshake reply: what \<^verbatim>\<open>json.Marshal\<close> prints for the map
  \<^verbatim>\<open>{"code": 200, "sys": {"heartbeat": seconds}}\<close> (keys in sorted order, no
  spaces). Marshalling a finite float does not fail, so the error branch after it is
  never taken. \<open>CHR 0x22\<close> is the double quote.
\<close>

definition bytesOf :: "string \<Rightarrow> byte list" where
  "bytesOf str = map (\<lambda>c. of_nat (of_char c)) str"

definition jsonKey :: "string \<Rightarrow> string" where
  "jsonKey k = CHR 0x22 # k @ [CHR 0x22] @ '':''"

definition handshakeJSON :: "string \<Rightarrow> string" where
  "handshakeJSON hb =
     ''{'' @ jsonKey ''code'' @ ''200'' @ '','' @ jsonKey ''sys'' @
     ''{'' @ jsonKey ''heartbeat'' @ hb @ ''}'' @ ''}''"

definition processPacket ::
  "env \<Rightarrow> handlerService \<Rightarrow> agent \<Rightarrow> packet \<Rightarrow> agent \<times> event list" where
  "processPacket env hs a p =
     (if PType p = Handshake then
        let a1 = a\<lparr>status := statusHandshake\<rparr>;
            data = bytesOf (handshakeJSON (heartbeatJSON env));
            rp = \<lparr>PType = Handshake, PLength = length data, PData = data\<rparr>;
            (resp, perr) = Pack rp;
            (a2, evs2) = (case perr of
                            None \<Rightarrow> (a1, [])
                          | Some e \<Rightarrow> (agent_close a1, [ELog Error e, EClose]));
            (a3, evs3) = (case agentSend env a2 resp of
                            None \<Rightarrow> (a2, [])
                          | Some e \<Rightarrow> (agent_close a2, [ELog Error e, EClose]))
        in (a3, evs2 @ [ESend resp] @ evs3)
      else if PType p = HandshakeAck then (a\<lparr>status := statusWorking\<rparr>, [])
      else if PType p = Data then
        (case msgDecode env (PData p) of
           Inl e \<Rightarrow> (a, [ELog Error e])
         | Inr m \<Rightarrow>
             let (s', evs) = processMessage env hs (session a) m
             in (a\<lparr>session := s'\<rparr>, evs @ [EHeartbeat]))
      else if PType p = Heartbeat then (a, [EHeartbeat])
      else (agent_close a, [ELog Info ''invalid packet type'', EClose]))"

text \<open>
  The processor goroutine of \<^verbatim>\<open>Handle\<close>: it takes the queued packets in order and runs
  \<^verbatim>\<open>processPacket\<close> on each.
\<close>

fun processPackets ::
  "env \<Rightarrow> handlerService \<Rightarrow> agent \<Rightarrow> packet list \<Rightarrow> agent \<times> event list" where
  "processPackets env hs a [] = (a, [])"
| "processPackets env hs a (p # ps) =
     (let (a1, evs1) = processPacket env hs a p;
          (a2, evs2) = processPackets env hs a1 ps
      in (a2, evs1 @ evs2))"

subsection \<open>The reader of Handle\<close>

text \<open>
  What the reader does: it queues a packet pointer (\<open>None\<close> for \<^verbatim>\<open>nil\<close>), or closes the
  agent.
\<close>

datatype reader_event = Enqueue "packet option" | AgentClose

text \<open>
  The inner loop of \<^verbatim>\<open>Handle\<close>, \<^verbatim>\<open>for len(tmp) >= packet.HeadLength\<close>, run for at most
  the given number of iterations. The result is the events so far and the buffer the
  loop leaves, \<open>None\<close> when the loop has not ended within that many iterations.
\<close>

fun Handle_unpack :: "nat \<Rightarrow> byte list \<Rightarrow> reader_event list \<times> byte list option" where
  "Handle_unpack 0 tmp = (if HeadLength \<le> length tmp then ([], None) else ([], Some tmp))"
| "Handle_unpack (Suc k) tmp =
     (if HeadLength \<le> length tmp then
        (case Unpack tmp of
           (p, tmp', Some e) \<Rightarrow> ([AgentClose], Some tmp')
         | (p, tmp', None) \<Rightarrow>
             (let (evs, r) = Handle_unpack k tmp' in (Enqueue p # evs, r)))
      else ([], Some tmp))"

text \<open>
  The outer loop of \<^verbatim>\<open>Handle\<close> over the reads that succeed: each read is appended to the
  buffer and the inner loop runs. A read is never reached when the inner loop before it
  does not end.
\<close>

fun Handle_reads ::
  "nat \<Rightarrow> byte list \<Rightarrow> byte list list \<Rightarrow> reader_event list \<times> byte list option" where
  "Handle_reads n tmp [] = ([], Some tmp)"
| "Handle_reads n tmp (seg # segs) =
     (case Handle_unpack n (tmp @ seg) of
        (evs, None) \<Rightarrow> (evs, None)
      | (evs, Some tmp') \<Rightarrow>
          (let (evs', r) = Handle_reads n tmp' segs in (evs @ evs', r)))"

section \<open>Notions used in the statements\<close>

text \<open>
  Modelled from the spec: \<^verbatim>\<open>Lookup(service, method)\<close>, a pure map read; these are the two
  reads \<^verbatim>\<open>localProcess\<close> makes, a \<^verbatim>\<open>nil\<close> entry counting as absent.
\<close>

definition Lookup :: "handlerService \<Rightarrow> string \<Rightarrow> string \<Rightarrow> handlerMethod option" where
  "Lookup hs sv mt =
     (case services hs sv of
        Some (Some s) \<Rightarrow> (case map_of (handlerMethod s) mt of Some (Some m) \<Rightarrow> Some m | _ \<Rightarrow> None)
      | _ \<Rightarrow> None)"

text \<open>The line \<^verbatim>\<open>localProcess\<close> logs when the route resolves to nothing.\<close>

definition notFoundLine :: "handlerService \<Rightarrow> route \<Rightarrow> string" where
  "notFoundLine hs r =
     (case services hs (Service r) of
        Some (Some s) \<Rightarrow> ''handler: '' @ Service r @ '' does not contain method: '' @ Method r
      | _ \<Rightarrow> ''handler: service: '' @ Service r @ '' not found'')"

text \<open>The argument \<^verbatim>\<open>localProcess\<close> builds for a method once the payload is accepted.\<close>

definition handlerArg :: "handlerMethod \<Rightarrow> message \<Rightarrow> arg" where
  "handlerArg m msg =
     (if raw m then RawArg (MData msg) else ObjArg (dataType m) (MData msg))"

fun isSend :: "event \<Rightarrow> bool" where
  "isSend (ESend bs) = True"
| "isSend e = False"

fun isInvoke :: "event \<Rightarrow> bool" where
  "isInvoke (EInvoke sv mt s d) = True"
| "isInvoke e = False"

fun isCall :: "event \<Rightarrow> bool" where
  "isCall (ECall k r s d) = True"
| "isCall e = False"

text \<open>The session an event hands to user code or to the cluster.\<close>

fun handed :: "event \<Rightarrow> session option" where
  "handed (EInvoke sv mt s d) = Some s"
| "handed (ECall k r s d) = Some s"
| "handed e = None"

text \<open>A handler method that leaves \<^verbatim>\<open>LastID\<close> as it found it, and a registry of such.\<close>

definition keepsLastID :: "handlerMethod \<Rightarrow> bool" where
  "keepsLastID m = (\<forall>s d. LastID (snd (methodFunc m s d)) = LastID s)"

definition handlersKeepLastID :: "handlerService \<Rightarrow> bool" where
  "handlersKeepLastID hs = (\<forall>sv mt m. Lookup hs sv mt = Some m \<longrightarrow> keepsLastID m)"

section \<open>A concrete node\<close>

text \<open>
  A frontend node of type \<open>connector\<close> with one component \<open>Echo\<close>: \<open>Say\<close> takes a decoded
  object and returns \<^verbatim>\<open>nil\<close>, \<open>Boom\<close> takes raw bytes and panics. The message decoder
  reads a type byte, an id byte and a route code looked up in a four-entry dictionary.
\<close>

definition upperFirst :: "string \<Rightarrow> bool" where
  "upperFirst nm =
     (case nm of [] \<Rightarrow> False | c # cs \<Rightarrow> 65 \<le> (of_char c :: nat) \<and> (of_char c :: nat) \<le> 90)"

definition exSay :: handlerMethod where
  "exSay = \<lparr>methodFunc = (\<lambda>s d. (Returns None, s)), dataType = ''*SayReq'', raw = False\<rparr>"

definition exBoom :: handlerMethod where
  "exBoom = \<lparr>methodFunc = (\<lambda>s d. (Panics ''boom'', s)), dataType = [], raw = True\<rparr>"

definition exEcho :: component where
  "exEcho = \<lparr>comp_typ = ''*main.Echo'', comp_name = ''Echo'',
             comp_methods = [(''Say'', Some exSay), (''Boom'', Some exBoom)],
             comp_ptr_methods = []\<rparr>"

definition exHS :: handlerService where
  "exHS = fst (Register upperFirst newHandlerService exEcho)"

definition exType :: "byte \<Rightarrow> message_type option" where
  "exType t =
     (if t = 0 then Some Request else if t = 1 then Some Notify
      else if t = 2 then Some Response else if t = 3 then Some Push else None)"

definition exRoute :: "byte \<Rightarrow> string" where
  "exRoute c =
     (if c = 1 then ''Echo.Say'' else if c = 2 then ''Echo.Boom''
      else if c = 3 then ''nope.none'' else ''chat.room.join'')"

definition exDecode :: "byte list \<Rightarrow> string + message" where
  "exDecode bs =
     (case bs of
        t # i # c # rest \<Rightarrow>
          (case exType t of
             None \<Rightarrow> Inl ''BadMessageType''
           | Some ty \<Rightarrow> Inr \<lparr>MType = ty, ID = unat i, Route = exRoute c, MData = rest\<rparr>)
      | _ \<Rightarrow> Inl ''Truncated'')"

definition exEnv :: env where
  "exEnv = \<lparr>appType = ''connector'', heartbeatJSON = ''30'', msgDecode = exDecode,
            msgString = Route, routeDecode = route_Decode,
            deserialize = (\<lambda>bs t. if bs = [] then Some ''unexpected end of JSON input'' else None),
            clusterCall = (\<lambda>k r s d. (rev d, None)),
            agentSend = (\<lambda>a bs. if status a = statusClosed then Some ''ClosedAgent'' else None)\<rparr>"

definition exSession :: session where
  "exSession = \<lparr>Id = 1, Uid = 0, LastID = 0\<rparr>"

definition exAgent :: agent where
  "exAgent = \<lparr>status = statusStart, session = exSession\<rparr>"

text \<open>
  Four requests (to \<open>Echo.Say\<close>, to \<open>Echo.Boom\<close>, to a route nobody serves, to a node of
  type \<open>chat\<close>), the packets that carry the first two, and a handshake packet.
\<close>

definition exSayReq :: message where
  "exSayReq = \<lparr>MType = Request, ID = 7, Route = ''Echo.Say'', MData = [9]\<rparr>"

definition exBoomReq :: message where
  "exBoomReq = \<lparr>MType = Request, ID = 5, Route = ''Echo.Boom'', MData = [1]\<rparr>"

definition exNopeReq :: message where
  "exNopeReq = \<lparr>MType = Request, ID = 11, Route = ''nope.none'', MData = [1]\<rparr>"

definition exJoinReq :: message where
  "exJoinReq = \<lparr>MType = Request, ID = 3, Route = ''chat.room.join'', MData = [1, 2]\<rparr>"

definition exSayPacket :: packet where
  "exSayPacket = \<lparr>PType = Data, PLength = 4, PData = [0, 7, 1, 9]\<rparr>"

definition exBoomPacket :: packet where
  "exBoomPacket = \<lparr>PType = Data, PLength = 4, PData = [0, 5, 2, 1]\<rparr>"

definition exHandshakePacket :: packet where
  "exHandshakePacket = \<lparr>PType = Handshake, PLength = 2, PData = [0x7b, 0x7d]\<rparr>"

section \<open>Registration\<close>

lemma services_nil_init:
  "services (if serviceMap hs = None then hs\<lparr>serviceMap := Some Map.empty\<rparr> else hs) = services hs"
  by (cases "serviceMap hs") (simp_all add: services_def)

lemma exHS_services:
  "services exHS =
     [''Echo'' \<mapsto> Some \<lparr>name = ''Echo'', svc_typ = ''*main.Echo'',
                        handlerMethod = [(''Say'', Some exSay), (''Boom'', Some exBoom)]\<rparr>]"
  by (simp add: exHS_def Register_def newHandlerService_def services_def exEcho_def
      upperFirst_def Let_def)



text \<open>
  Claim C10. When \<^verbatim>\<open>Register\<close> returns an error, the service map holds what it held
  before: every name reads as before, so every \<^verbatim>\<open>Lookup\<close> answers as before, and a
  handler service whose map was allocated is unchanged as a whole (a \<^verbatim>\<open>nil\<close> map has
  become an empty one).
\<close>

theorem Register_error_keeps_map:
  "snd (Register ex hs c) = Some e \<Longrightarrow>
     services (fst (Register ex hs c)) = services hs
     \<and> (\<forall>sv mt. Lookup (fst (Register ex hs c)) sv mt = Lookup hs sv mt)
     \<and> (serviceMap hs \<noteq> None \<longrightarrow> fst (Register ex hs c) = hs)"
  by (auto simp add: Register_def Let_def services_nil_init Lookup_def split: if_splits)

text \<open>Claim C10, at the second registration of \<open>Echo\<close>, which is refused.\<close>

theorem Register_error_keeps_map_witness:
  "snd (Register upperFirst exHS exEcho) = Some ''handler: service already defined: Echo''
   \<and> services (fst (Register upperFirst exHS exEcho)) = services exHS
   \<and> Lookup (fst (Register upperFirst exHS exEcho)) ''Echo'' ''Say'' = Lookup exHS ''Echo'' ''Say''
   \<and> fst (Register upperFirst exHS exEcho) = exHS"
proof -
  have e: "snd (Register upperFirst exHS exEcho) = Some ''handler: service already defined: Echo''"
    by (simp add: Register_def Let_def services_nil_init exHS_services exEcho_def upperFirst_def)
  have n: "serviceMap exHS \<noteq> None"
    by (simp add: exHS_def Register_def newHandlerService_def services_def exEcho_def
        upperFirst_def Let_def)
  from Register_error_keeps_map [OF e] n e show ?thesis by simp
qed

section \<open>What the dispatcher does with a message\<close>

lemma callMethod_events:
  "callMethod sv mt m s d = (s', evs, pan) \<Longrightarrow>
     s' = snd (methodFunc m s d) \<and>
     (\<forall>e\<in>set evs. \<not> isCall e \<and> \<not> isSend e \<and> e \<noteq> EClose \<and> (handed e = None \<or> handed e = Some s))"
  by (auto simp add: callMethod_def split: prod.splits outcome.splits option.splits)

lemma localProcess_cases:
  "localProcess env hs s r msg =
     (case Lookup hs (Service r) (Method r) of
        None \<Rightarrow> (s, [ELog Info (notFoundLine hs r)], None)
      | Some m \<Rightarrow>
          if \<not> raw m \<and> deserialize env (MData msg) (dataType m) \<noteq> None
          then (s, [ELog Error (''deserialize error: '' @ the (deserialize env (MData msg) (dataType m)))], None)
          else callMethod (Service r) (Method r) m s (handlerArg m msg))"
  by (auto simp add: localProcess_def Lookup_def notFoundLine_def handlerArg_def
      split: option.splits)

lemma localProcess_events:
  "localProcess env hs s r msg = (s', evs, pan) \<Longrightarrow>
     (\<forall>e\<in>set evs. \<not> isCall e \<and> \<not> isSend e \<and> e \<noteq> EClose \<and> (handed e = None \<or> handed e = Some s))"
  by (auto simp add: localProcess_cases split: option.splits if_splits dest!: callMethod_events)

lemma remoteProcess_events:
  "remoteProcess env s r msg = (s', evs, pan) \<Longrightarrow>
     s' = s \<and> pan = None \<and> filter isCall evs = [ECall Sys r s (MData msg)] \<and>
     (\<forall>e\<in>set evs. \<not> isInvoke e \<and> \<not> isSend e \<and> e \<noteq> EClose \<and> (handed e = None \<or> handed e = Some s))"
  by (auto simp add: remoteProcess_def split: option.splits)


lemma recoverPanic_Cons:
  "recoverPanic (case res of (s', evs, pan) \<Rightarrow> (s', e # evs, pan)) =
     (case recoverPanic res of (s', evs) \<Rightarrow> (s', e # evs))"
proof -
  obtain s' evs pan where r: "res = (s', evs, pan)" by (cases res) auto
  show ?thesis by (cases pan) (simp_all add: r recoverPanic_def)
qed

lemma routeMessage_decoded:
  assumes "routeDecode env (Route msg) = Inr r"
  shows "routeMessage env hs s msg =
     (case (if ServerType r = [] \<or> ServerType r = appType env
            then localProcess env hs s (r\<lparr>ServerType := appType env\<rparr>) msg
            else remoteProcess env s r msg) of
        (s', evs, pan) \<Rightarrow> (s', ELog Debug (msgString env msg) # evs, pan))"
proof (cases "ServerType r = []")
  case True
  then show ?thesis by (simp add: routeMessage_def assms)
next
  case False
  show ?thesis
  proof (cases "ServerType r = appType env")
    case True
    have eq: "r\<lparr>ServerType := appType env\<rparr> = r"
      by (simp add: True [symmetric])
    show ?thesis
      unfolding eq using True False by (simp add: routeMessage_def assms)
  next
    case False
    with \<open>ServerType r \<noteq> []\<close> show ?thesis by (simp add: routeMessage_def assms)
  qed
qed

lemma processMessage_routed:
  assumes "MType msg = Request \<or> MType msg = Notify"
    and "routeDecode env (Route msg) = Inr r"
  shows "processMessage env hs s msg =
     (case recoverPanic
             (if ServerType r = [] \<or> ServerType r = appType env
              then localProcess env hs (s\<lparr>LastID := (if MType msg = Request then ID msg else 0)\<rparr>)
                     (r\<lparr>ServerType := appType env\<rparr>) msg
              else remoteProcess env (s\<lparr>LastID := (if MType msg = Request then ID msg else 0)\<rparr>) r msg) of
        (s', evs) \<Rightarrow> (s', ELog Debug (msgString env msg) # evs))"
proof -
  have "processMessageBody env hs s msg =
      routeMessage env hs (s\<lparr>LastID := (if MType msg = Request then ID msg else 0)\<rparr>) msg"
    using assms(1) by (auto simp add: processMessageBody_def)
  then show ?thesis
    by (simp only: processMessage_def routeMessage_decoded [OF assms(2)] recoverPanic_Cons)
qed

lemma recoverPanic_events:
  "recoverPanic (s', evs, pan) = (s'', evs') \<Longrightarrow>
     s'' = s' \<and> (\<exists>tl. evs' = evs @ tl \<and> (\<forall>e\<in>set tl. \<not> isCall e \<and> \<not> isInvoke e \<and> \<not> isSend e \<and> e \<noteq> EClose \<and> handed e = None))"
  by (auto simp add: recoverPanic_def split: option.splits)

lemma callMethod_invokes:
  "callMethod sv mt m s d = (s', evs, pan) \<Longrightarrow> \<exists>e\<in>set evs. isInvoke e"
  by (auto simp add: callMethod_def split: prod.splits outcome.splits option.splits)

lemma localProcess_session:
  assumes "localProcess env hs s r msg = (s', evs, pan)"
  shows "((\<forall>e\<in>set evs. \<not> isInvoke e) \<longrightarrow> s' = s)
       \<and> (handlersKeepLastID hs \<longrightarrow> LastID s' = LastID s)"
proof (cases "Lookup hs (Service r) (Method r)")
  case None
  with assms show ?thesis by (simp add: localProcess_cases)
next
  case (Some m)
  show ?thesis
  proof (cases "\<not> raw m \<and> deserialize env (MData msg) (dataType m) \<noteq> None")
    case True
    with assms Some show ?thesis by (simp add: localProcess_cases)
  next
    case False
    with assms Some
    have cm: "callMethod (Service r) (Method r) m s (handlerArg m msg) = (s', evs, pan)"
      by (auto simp add: localProcess_cases split: if_splits)
    from callMethod_events [OF cm]
    have s': "s' = snd (methodFunc m s (handlerArg m msg))" by simp
    have "handlersKeepLastID hs \<longrightarrow> LastID s' = LastID s"
      using Some s' by (auto simp add: handlersKeepLastID_def keepsLastID_def)
    with callMethod_invokes [OF cm] show ?thesis by blast
  qed
qed

lemma routeMessage_session:
  assumes "routeMessage env hs s msg = (s', evs, pan)"
  shows "(\<forall>e\<in>set evs. handed e = None \<or> handed e = Some s)
       \<and> ((\<forall>e\<in>set evs. \<not> isInvoke e) \<longrightarrow> s' = s)
       \<and> (handlersKeepLastID hs \<longrightarrow> LastID s' = LastID s)"
proof (cases "routeDecode env (Route msg)")
  case (Inl e)
  with assms show ?thesis by (auto simp add: routeMessage_def)
next
  case (Inr r)
  show ?thesis
  proof (cases "ServerType r = [] \<or> ServerType r = appType env")
    case True
    obtain s1 es p1 where lp: "localProcess env hs s (r\<lparr>ServerType := appType env\<rparr>) msg = (s1, es, p1)"
      by (cases "localProcess env hs s (r\<lparr>ServerType := appType env\<rparr>) msg") auto
    with assms True have eq: "s' = s1" "evs = ELog Debug (msgString env msg) # es"
      by (simp_all add: routeMessage_decoded [OF Inr])
    from localProcess_events [OF lp] localProcess_session [OF lp]
    show ?thesis by (auto simp add: eq)
  next
    case False
    obtain s1 es p1 where lp: "remoteProcess env s r msg = (s1, es, p1)"
      by (cases "remoteProcess env s r msg") auto
    with assms False have eq: "s' = s1" "evs = ELog Debug (msgString env msg) # es"
      by (simp_all add: routeMessage_decoded [OF Inr])
    from remoteProcess_events [OF lp]
    show ?thesis by (auto simp add: eq)
  qed
qed

lemma processMessage_session:
  assumes "routeMessage env hs s1 msg = (s', evs, pan)"
    and "recoverPanic (s', evs, pan) = (s'', evs')"
  shows "(\<forall>e\<in>set evs'. handed e = None \<or> handed e = Some s1)
       \<and> ((\<forall>e\<in>set evs'. \<not> isInvoke e) \<longrightarrow> s'' = s1)
       \<and> (handlersKeepLastID hs \<longrightarrow> LastID s'' = LastID s1)"
  using routeMessage_session [OF assms(1)] recoverPanic_events [OF assms(2)]
  by auto

lemma processPacket_Data:
  assumes "PType p = Data"
  shows "processPacket env hs a p =
     (case msgDecode env (PData p) of
        Inl e \<Rightarrow> (a, [ELog Error e])
      | Inr m \<Rightarrow> (a\<lparr>session := fst (processMessage env hs (session a) m)\<rparr>,
                  snd (processMessage env hs (session a) m) @ [EHeartbeat]))"
  using assms
  by (simp add: processPacket_def Data_def Handshake_def HandshakeAck_def
      split: sum.splits prod.splits)

section \<open>Packing and unpacking\<close>

lemma div_65536_less: "n < 16777216 \<Longrightarrow> (n::nat) div 65536 < 256"
  by (rule less_mult_imp_div_less) simp

lemma low_two_bytes: "((n::nat) div 256) mod 256 * 256 + n mod 256 = n mod 65536"
  using mod_mult2_eq [of n 256 256] by simp

lemma unat_of_nat_byte: "unat (of_nat x :: 8 word) = x mod 256"
  by (simp add: unat_of_nat)

lemma be24_roundtrip:
  assumes "n < 16777216"
  shows "bytesToInt (of_nat (n div 65536)) (of_nat (n div 256)) (of_nat n) = n"
proof -
  have a: "(n div 65536) mod 256 = n div 65536" using div_65536_less [OF assms] by (rule mod_less)
  have c: "n div 65536 * 65536 + n mod 65536 = n" by (rule div_mult_mod_eq)
  have "bytesToInt (of_nat (n div 65536)) (of_nat (n div 256)) (of_nat n) =
      (n div 65536) mod 256 * 65536 + ((n div 256) mod 256 * 256 + n mod 256)"
    unfolding bytesToInt_def unat_of_nat_byte by (rule add.assoc)
  also have "\<dots> = n div 65536 * 65536 + n mod 65536"
    unfolding a low_two_bytes ..
  finally show ?thesis unfolding c .
qed

lemma Unpack_Pack:
  assumes "unat Handshake \<le> unat (PType p)" and "unat (PType p) \<le> unat Kick"
    and "length (PData p) < 16777216"
  shows "Unpack (fst (Pack p)) =
           (Some \<lparr>PType = PType p, PLength = length (PData p), PData = PData p\<rparr>, [], None)"
proof -
  have n: "bytesToInt (of_nat (length (PData p) div 65536)) (of_nat (length (PData p) div 256))
      (of_nat (length (PData p))) = length (PData p)"
    by (rule be24_roundtrip [OF assms(3)])
  have t: "\<not> (unat (PType p) < unat Handshake \<or> unat Kick < unat (PType p))"
    using assms(1,2) by simp
  show ?thesis
    by (simp add: Unpack_def Pack_def be24_def HeadLength_def n t Let_def)
qed

lemma Unpack_stuck: "Unpack [4, 0, 0, 1] = (None, [4, 0, 0, 1], None)"
  by (simp add: Unpack_def HeadLength_def bytesToInt_def Handshake_def Kick_def Let_def)

lemma Handle_unpack_no_progress:
  assumes "HeadLength \<le> length tmp" and "Unpack tmp = (None, tmp, None)"
  shows "Handle_unpack n tmp = (replicate n (Enqueue None), None)"
  using assms by (induction n) simp_all

lemma Handle_unpack_stuck:
  "Handle_unpack n [4, 0, 0, 1] = (replicate n (Enqueue None), None)"
  by (rule Handle_unpack_no_progress) (simp_all add: HeadLength_def Unpack_stuck)

section \<open>The concrete node, evaluated\<close>

lemma exEnv_fields:
  "appType exEnv = ''connector''"
  "heartbeatJSON exEnv = ''30''"
  "msgDecode exEnv = exDecode"
  "msgString exEnv = Route"
  "routeDecode exEnv = route_Decode"
  "deserialize exEnv bs t = (if bs = [] then Some ''unexpected end of JSON input'' else None)"
  "clusterCall exEnv k r s d = (rev d, None)"
  "agentSend exEnv a bs = (if status a = statusClosed then Some ''ClosedAgent'' else None)"
  by (simp_all add: exEnv_def)

lemma ex_routes:
  "route_Decode ''Echo.Say'' = Inr \<lparr>ServerType = [], Service = ''Echo'', Method = ''Say''\<rparr>"
  "route_Decode ''Echo.Boom'' = Inr \<lparr>ServerType = [], Service = ''Echo'', Method = ''Boom''\<rparr>"
  "route_Decode ''nope.none'' = Inr \<lparr>ServerType = [], Service = ''nope'', Method = ''none''\<rparr>"
  "route_Decode ''chat.room.join'' =
     Inr \<lparr>ServerType = ''chat'', Service = ''room'', Method = ''join''\<rparr>"
  by (simp_all add: route_Decode_def)

lemma ex_lookups:
  "Lookup exHS ''Echo'' ''Say'' = Some exSay"
  "Lookup exHS ''Echo'' ''Boom'' = Some exBoom"
  "Lookup exHS ''nope'' ''none'' = None"
  by (simp_all add: Lookup_def exHS_services)

lemma ex_decodes:
  "exDecode [0, 7, 1, 9] = Inr exSayReq"
  "exDecode [0, 5, 2, 1] = Inr exBoomReq"
  by (simp_all add: exDecode_def exType_def exRoute_def exSayReq_def exBoomReq_def)

lemma exHS_keeps: "handlersKeepLastID exHS"
  by (auto simp add: handlersKeepLastID_def Lookup_def exHS_services keepsLastID_def
      exSay_def exBoom_def split: if_splits option.splits)

lemma ex_msgs:
  "MType exSayReq = Request" "ID exSayReq = 7" "Route exSayReq = ''Echo.Say''" "MData exSayReq = [9]"
  "MType exBoomReq = Request" "ID exBoomReq = 5" "Route exBoomReq = ''Echo.Boom''" "MData exBoomReq = [1]"
  "MType exNopeReq = Request" "ID exNopeReq = 11" "Route exNopeReq = ''nope.none''" "MData exNopeReq = [1]"
  "MType exJoinReq = Request" "ID exJoinReq = 3" "Route exJoinReq = ''chat.room.join''"
  "MData exJoinReq = [1, 2]"
  by (simp_all add: exSayReq_def exBoomReq_def exNopeReq_def exJoinReq_def)

lemma ex_packets:
  "PType exSayPacket = Data" "PData exSayPacket = [0, 7, 1, 9]"
  "PType exBoomPacket = Data" "PData exBoomPacket = [0, 5, 2, 1]"
  "PType exHandshakePacket = Handshake"
  by (simp_all add: exSayPacket_def exBoomPacket_def exHandshakePacket_def)

lemma exSay_message:
  "processMessage exEnv exHS s exSayReq =
     (s\<lparr>LastID := 7\<rparr>,
      [ELog Debug ''Echo.Say'',
       EInvoke ''Echo'' ''Say'' (s\<lparr>LastID := 7\<rparr>) (ObjArg ''*SayReq'' [9])])"
proof -
  have t: "MType exSayReq = Request \<or> MType exSayReq = Notify" by (simp add: exSayReq_def)
  have d: "routeDecode exEnv (Route exSayReq) =
      Inr \<lparr>ServerType = [], Service = ''Echo'', Method = ''Say''\<rparr>"
    by (simp add: exEnv_fields exSayReq_def ex_routes)
  show ?thesis
    by (subst processMessage_routed [OF t d])
      (simp add: localProcess_cases ex_lookups exEnv_fields
        callMethod_def handlerArg_def recoverPanic_def exSay_def exSayReq_def)
qed

lemma exBoom_message:
  "processMessage exEnv exHS s exBoomReq =
     (s\<lparr>LastID := 5\<rparr>,
      [ELog Debug ''Echo.Boom'',
       EInvoke ''Echo'' ''Boom'' (s\<lparr>LastID := 5\<rparr>) (RawArg [1]),
       ELog Error ''processMessage Error: boom''])"
proof -
  have t: "MType exBoomReq = Request \<or> MType exBoomReq = Notify" by (simp add: exBoomReq_def)
  have d: "routeDecode exEnv (Route exBoomReq) =
      Inr \<lparr>ServerType = [], Service = ''Echo'', Method = ''Boom''\<rparr>"
    by (simp add: exEnv_fields exBoomReq_def ex_routes)
  show ?thesis
    by (subst processMessage_routed [OF t d])
      (simp add: localProcess_cases ex_lookups exEnv_fields
        callMethod_def handlerArg_def recoverPanic_def exBoom_def exBoomReq_def)
qed

lemma exNope_message:
  "processMessage exEnv exHS s exNopeReq =
     (s\<lparr>LastID := 11\<rparr>,
      [ELog Debug ''nope.none'', ELog Info ''handler: service: nope not found''])"
proof -
  have t: "MType exNopeReq = Request \<or> MType exNopeReq = Notify" by (simp add: exNopeReq_def)
  have d: "routeDecode exEnv (Route exNopeReq) =
      Inr \<lparr>ServerType = [], Service = ''nope'', Method = ''none''\<rparr>"
    by (simp add: exEnv_fields exNopeReq_def ex_routes)
  show ?thesis
    by (subst processMessage_routed [OF t d])
      (simp add: localProcess_cases ex_lookups exEnv_fields
        notFoundLine_def exHS_services recoverPanic_def exNopeReq_def)
qed

lemma exJoin_message:
  "processMessage exEnv exHS s exJoinReq =
     (s\<lparr>LastID := 3\<rparr>,
      [ELog Debug ''chat.room.join'',
       ECall Sys \<lparr>ServerType = ''chat'', Service = ''room'', Method = ''join''\<rparr>
         (s\<lparr>LastID := 3\<rparr>) [1, 2]])"
proof -
  have t: "MType exJoinReq = Request \<or> MType exJoinReq = Notify" by (simp add: exJoinReq_def)
  have d: "routeDecode exEnv (Route exJoinReq) =
      Inr \<lparr>ServerType = ''chat'', Service = ''room'', Method = ''join''\<rparr>"
    by (simp add: exEnv_fields exJoinReq_def ex_routes)
  show ?thesis
    by (subst processMessage_routed [OF t d])
      (simp add: remoteProcess_def exEnv_fields
        recoverPanic_def exJoinReq_def)
qed

lemma exSay_packet:
  "processPacket exEnv exHS a exSayPacket =
     (a\<lparr>session := (session a)\<lparr>LastID := 7\<rparr>\<rparr>,
      [ELog Debug ''Echo.Say'',
       EInvoke ''Echo'' ''Say'' ((session a)\<lparr>LastID := 7\<rparr>) (ObjArg ''*SayReq'' [9]),
       EHeartbeat])"
  by (simp add: processPacket_Data ex_packets exEnv_fields ex_decodes exSay_message)

lemma exBoom_packet:
  "processPacket exEnv exHS a exBoomPacket =
     (a\<lparr>session := (session a)\<lparr>LastID := 5\<rparr>\<rparr>,
      [ELog Debug ''Echo.Boom'',
       EInvoke ''Echo'' ''Boom'' ((session a)\<lparr>LastID := 5\<rparr>) (RawArg [1]),
       ELog Error ''processMessage Error: boom'',
       EHeartbeat])"
  by (simp add: processPacket_Data ex_packets exEnv_fields ex_decodes exBoom_message)

lemma ex_handshake_bytes:
  "bytesOf (handshakeJSON ''30'') =
     [123, 34, 99, 111, 100, 101, 34, 58, 50, 48, 48, 44, 34, 115, 121, 115, 34, 58, 123, 34,
      104, 101, 97, 114, 116, 98, 101, 97, 116, 34, 58, 51, 48, 125, 125]"
  by (simp add: bytesOf_def handshakeJSON_def jsonKey_def)

section \<open>Data packets and the agent status\<close>

text \<open>
  Claim C1, as amended. \<^verbatim>\<open>processPacket\<close> does not read the agent's status when the
  packet is a \<^verbatim>\<open>Data\<close> packet: run in any status \<open>st\<close>, it does what it does in any
  other status, and it leaves the status as it was. When \<^verbatim>\<open>message.Decode\<close> fails, the
  error is logged and the packet dropped; otherwise \<^verbatim>\<open>processMessage\<close> runs on the
  message and the heartbeat is started.
\<close>

theorem data_packet_any_status:
  assumes "PType p = Data"
  shows "processPacket env hs (a\<lparr>status := st\<rparr>) p =
           (case processPacket env hs a p of (a', evs) \<Rightarrow> (a'\<lparr>status := st\<rparr>, evs))
       \<and> status (fst (processPacket env hs a p)) = status a
       \<and> processPacket env hs a p =
           (case msgDecode env (PData p) of
              Inl e \<Rightarrow> (a, [ELog Error e])
            | Inr m \<Rightarrow> (a\<lparr>session := fst (processMessage env hs (session a) m)\<rparr>,
                        snd (processMessage env hs (session a) m) @ [EHeartbeat]))"
  by (simp add: processPacket_Data [OF assms] split: sum.splits)

text \<open>
  Claim C1, as amended, at the agent in status \<open>start\<close> and the packet that carries the
  request to \<open>Echo.Say\<close>.
\<close>

theorem data_packet_any_status_witness:
  "PType exSayPacket = Data
   \<and> processPacket exEnv exHS (exAgent\<lparr>status := statusWorking\<rparr>) exSayPacket =
       (case processPacket exEnv exHS exAgent exSayPacket of
          (a', evs) \<Rightarrow> (a'\<lparr>status := statusWorking\<rparr>, evs))
   \<and> status (fst (processPacket exEnv exHS exAgent exSayPacket)) = statusStart"
proof -
  have pt: "PType exSayPacket = Data" by (rule ex_packets)
  note th = data_packet_any_status [OF pt, where env = exEnv and hs = exHS and a = exAgent
      and st = statusWorking]
  have st: "status exAgent = statusStart" by (simp add: exAgent_def)
  from th have b: "processPacket exEnv exHS (exAgent\<lparr>status := statusWorking\<rparr>) exSayPacket =
       (case processPacket exEnv exHS exAgent exSayPacket of
          (a', evs) \<Rightarrow> (a'\<lparr>status := statusWorking\<rparr>, evs))"
    by (rule conjunct1)
  from th have "status (fst (processPacket exEnv exHS exAgent exSayPacket)) = status exAgent"
    by blast
  then have c: "status (fst (processPacket exEnv exHS exAgent exSayPacket)) = statusStart"
    by (simp only: st)
  from pt b c show ?thesis by (intro conjI)
qed

text \<open>
  Claim C1 as stated fails: the agent is in status \<open>start\<close>, no handshake has been seen,
  and the \<^verbatim>\<open>Data\<close> packet is decoded, routed and handed to the handler \<open>Echo.Say\<close>.
\<close>

theorem data_packet_processed_before_handshake:
  "status exAgent \<noteq> statusWorking \<and> PType exSayPacket = Data
   \<and> processPacket exEnv exHS exAgent exSayPacket =
       (exAgent\<lparr>session := exSession\<lparr>LastID := 7\<rparr>\<rparr>,
        [ELog Debug ''Echo.Say'',
         EInvoke ''Echo'' ''Say'' (exSession\<lparr>LastID := 7\<rparr>) (ObjArg ''*SayReq'' [9]),
         EHeartbeat])
   \<and> filter isInvoke (snd (processPacket exEnv exHS exAgent exSayPacket)) =
       [EInvoke ''Echo'' ''Say'' (exSession\<lparr>LastID := 7\<rparr>) (ObjArg ''*SayReq'' [9])]"
  by (simp add: exSay_packet ex_packets exAgent_def)

section \<open>Remote routes\<close>

text \<open>
  Claim C2, as amended. For a Request whose route names a server type that is not empty
  and is not the local node's, the dispatcher sets \<^verbatim>\<open>LastID\<close>, logs the message and makes
  one call \<^verbatim>\<open>cluster.Call(rpc.Sys, route, session, msg.Data)\<close>. The reply bytes are
  dropped: nothing is sent on the agent. An error of the call is logged.
\<close>

theorem remote_request_reply_discarded:
  assumes "MType msg = Request"
    and "routeDecode env (Route msg) = Inr r"
    and "ServerType r \<noteq> []"
    and "ServerType r \<noteq> appType env"
  shows "processMessage env hs s msg =
     (s\<lparr>LastID := ID msg\<rparr>,
      ELog Debug (msgString env msg) #
      ECall Sys r (s\<lparr>LastID := ID msg\<rparr>) (MData msg) #
      (case snd (clusterCall env Sys r (s\<lparr>LastID := ID msg\<rparr>) (MData msg)) of
         None \<Rightarrow> []
       | Some e \<Rightarrow> [ELog Error e]))"
proof -
  have t: "MType msg = Request \<or> MType msg = Notify" using assms(1) by simp
  show ?thesis
    using assms
    by (simp add: processMessage_routed [OF t assms(2)] remoteProcess_def recoverPanic_def
        split: option.splits)
qed

text \<open>
  Claim C2, as amended, at the request to \<open>chat.room.join\<close> on the node of type
  \<open>connector\<close>.
\<close>

theorem remote_request_reply_discarded_witness:
  "processMessage exEnv exHS exSession exJoinReq =
     (exSession\<lparr>LastID := 3\<rparr>,
      [ELog Debug ''chat.room.join'',
       ECall Sys \<lparr>ServerType = ''chat'', Service = ''room'', Method = ''join''\<rparr>
         (exSession\<lparr>LastID := 3\<rparr>) [1, 2]])"
proof -
  have t: "MType exJoinReq = Request" by (simp add: exJoinReq_def)
  have d: "routeDecode exEnv (Route exJoinReq) =
      Inr \<lparr>ServerType = ''chat'', Service = ''room'', Method = ''join''\<rparr>"
    by (simp add: exEnv_fields exJoinReq_def ex_routes)
  have n: "ServerType \<lparr>ServerType = ''chat'', Service = ''room'', Method = ''join''\<rparr> \<noteq> []"
    by simp
  have a: "ServerType \<lparr>ServerType = ''chat'', Service = ''room'', Method = ''join''\<rparr>
      \<noteq> appType exEnv"
    by (simp add: exEnv_fields)
  from remote_request_reply_discarded [OF t d n a, of exHS exSession]
  show ?thesis by (simp add: exEnv_fields exJoinReq_def)
qed

text \<open>
  Claim C2 as stated fails: the cluster call for \<open>chat.room.join\<close> returns the reply bytes
  \<open>[2, 1]\<close> without error, one call is made, and no \<^verbatim>\<open>Send\<close> on the agent follows.
\<close>

theorem remote_reply_not_sent:
  "MType exJoinReq = Request
   \<and> routeDecode exEnv (Route exJoinReq) =
       Inr \<lparr>ServerType = ''chat'', Service = ''room'', Method = ''join''\<rparr>
   \<and> ''chat'' \<noteq> appType exEnv
   \<and> clusterCall exEnv Sys \<lparr>ServerType = ''chat'', Service = ''room'', Method = ''join''\<rparr>
        (exSession\<lparr>LastID := 3\<rparr>) (MData exJoinReq) = ([2, 1], None)
   \<and> filter isCall (snd (processMessage exEnv exHS exSession exJoinReq)) =
       [ECall Sys \<lparr>ServerType = ''chat'', Service = ''room'', Method = ''join''\<rparr>
          (exSession\<lparr>LastID := 3\<rparr>) [1, 2]]
   \<and> filter isSend (snd (processMessage exEnv exHS exSession exJoinReq)) = []"
  by (simp add: exJoin_message exEnv_fields ex_routes ex_msgs)

section \<open>Unknown routes\<close>

text \<open>
  Claim C3, as amended. For a Request or a Notify routed locally whose service is not
  registered (or is a \<^verbatim>\<open>nil\<close> entry), or whose service lacks the method, \<^verbatim>\<open>LastID\<close> is
  set, the event is logged at level Info and the message is dropped: no handler runs and
  nothing is sent on the agent, for a Request as for a Notify.
\<close>

theorem unknown_route_logged_and_dropped:
  assumes "MType msg = Request \<or> MType msg = Notify"
    and "routeDecode env (Route msg) = Inr r"
    and "ServerType r = [] \<or> ServerType r = appType env"
    and "Lookup hs (Service r) (Method r) = None"
  shows "processMessage env hs s msg =
     (s\<lparr>LastID := (if MType msg = Request then ID msg else 0)\<rparr>,
      [ELog Debug (msgString env msg), ELog Info (notFoundLine hs r)])"
proof -
  have nf: "notFoundLine hs (r\<lparr>ServerType := appType env\<rparr>) = notFoundLine hs r"
    by (simp add: notFoundLine_def split: option.splits)
  show ?thesis
    using assms(3,4)
    by (simp add: processMessage_routed [OF assms(1,2)] localProcess_cases nf recoverPanic_def)
qed

text \<open>
  Claim C3, as amended, at a Notify for an unknown service and at a Request for an
  unknown method of \<open>Echo\<close>.
\<close>

theorem unknown_route_logged_and_dropped_witness:
  "processMessage exEnv exHS exSession (exNopeReq\<lparr>MType := Notify\<rparr>) =
     (exSession\<lparr>LastID := 0\<rparr>,
      [ELog Debug ''nope.none'', ELog Info ''handler: service: nope not found''])
   \<and> processMessage exEnv exHS exSession (exSayReq\<lparr>Route := ''Echo.Shout''\<rparr>) =
     (exSession\<lparr>LastID := 7\<rparr>,
      [ELog Debug ''Echo.Shout'', ELog Info ''handler: Echo does not contain method: Shout''])"
proof -
  let ?m1 = "exNopeReq\<lparr>MType := Notify\<rparr>"
  let ?r1 = "\<lparr>ServerType = [], Service = ''nope'', Method = ''none''\<rparr>"
  have t1: "MType ?m1 = Request \<or> MType ?m1 = Notify" by simp
  have d1: "routeDecode exEnv (Route ?m1) = Inr ?r1"
    by (simp add: exEnv_fields exNopeReq_def ex_routes)
  have l1: "ServerType ?r1 = [] \<or> ServerType ?r1 = appType exEnv" by simp
  have n1: "Lookup exHS (Service ?r1) (Method ?r1) = None" by (simp add: ex_lookups)
  let ?m2 = "exSayReq\<lparr>Route := ''Echo.Shout''\<rparr>"
  let ?r2 = "\<lparr>ServerType = [], Service = ''Echo'', Method = ''Shout''\<rparr>"
  have t2: "MType ?m2 = Request \<or> MType ?m2 = Notify" by (simp add: exSayReq_def)
  have d2: "routeDecode exEnv (Route ?m2) = Inr ?r2"
    by (simp add: exEnv_fields route_Decode_def)
  have l2: "ServerType ?r2 = [] \<or> ServerType ?r2 = appType exEnv" by simp
  have n2: "Lookup exHS (Service ?r2) (Method ?r2) = None"
    by (simp add: Lookup_def exHS_services)
  from unknown_route_logged_and_dropped [OF t1 d1 l1 n1, of exSession]
    unknown_route_logged_and_dropped [OF t2 d2 l2 n2, of exSession]
  show ?thesis
    by (simp add: exEnv_fields notFoundLine_def exHS_services exNopeReq_def exSayReq_def)
qed

text \<open>
  Claim C3 as stated fails: the Request with id 11 for \<open>nope.none\<close> resolves to no
  service, and the dispatcher logs two lines and sends nothing on the agent.
\<close>

theorem unknown_route_no_reply:
  "MType exNopeReq = Request
   \<and> routeDecode exEnv (Route exNopeReq) =
       Inr \<lparr>ServerType = [], Service = ''nope'', Method = ''none''\<rparr>
   \<and> Lookup exHS ''nope'' ''none'' = None
   \<and> processMessage exEnv exHS exSession exNopeReq =
       (exSession\<lparr>LastID := 11\<rparr>,
        [ELog Debug ''nope.none'', ELog Info ''handler: service: nope not found''])
   \<and> filter isSend (snd (processMessage exEnv exHS exSession exNopeReq)) = []"
  by (simp add: exNope_message exEnv_fields ex_routes ex_lookups ex_msgs)

section \<open>Handler panics\<close>

text \<open>
  Claim C4, as amended. When the handler of a locally routed Request or Notify panics,
  the deferred function of \<^verbatim>\<open>processMessage\<close> recovers the panic and logs it at level
  Error; \<^verbatim>\<open>processPacket\<close> goes on to start the heartbeat, the agent keeps its status,
  is not closed, and the processor handles the packets that follow. Nothing is sent on
  the agent for the failed message, for a Request as for a Notify.
\<close>

theorem handler_panic_recovered:
  assumes "PType p = Data"
    and "msgDecode env (PData p) = Inr msg"
    and "MType msg = Request \<or> MType msg = Notify"
    and "routeDecode env (Route msg) = Inr r"
    and "ServerType r = [] \<or> ServerType r = appType env"
    and "Lookup hs (Service r) (Method r) = Some m"
    and "raw m \<or> deserialize env (MData msg) (dataType m) = None"
    and "methodFunc m ((session a)\<lparr>LastID := (if MType msg = Request then ID msg else 0)\<rparr>)
           (handlerArg m msg) = (Panics v, s')"
  shows "processPackets env hs a (p # ps) =
     (case processPackets env hs (a\<lparr>session := s'\<rparr>) ps of
        (a2, evs2) \<Rightarrow>
          (a2, [ELog Debug (msgString env msg),
                EInvoke (Service r) (Method r)
                  ((session a)\<lparr>LastID := (if MType msg = Request then ID msg else 0)\<rparr>)
                  (handlerArg m msg),
                ELog Error (''processMessage Error: '' @ v),
                EHeartbeat] @ evs2))"
proof -
  let ?s1 = "(session a)\<lparr>LastID := (if MType msg = Request then ID msg else 0)\<rparr>"
  have lp: "localProcess env hs ?s1 (r\<lparr>ServerType := appType env\<rparr>) msg =
      (s', [EInvoke (Service r) (Method r) ?s1 (handlerArg m msg)], Some v)"
    using assms(6,7,8) by (auto simp add: localProcess_cases callMethod_def)
  have pm: "processMessage env hs (session a) msg =
      (s', [ELog Debug (msgString env msg),
            EInvoke (Service r) (Method r) ?s1 (handlerArg m msg),
            ELog Error (''processMessage Error: '' @ v)])"
    using assms(5) by (simp add: processMessage_routed [OF assms(3,4)] lp recoverPanic_def)
  have pp: "processPacket env hs a p =
      (a\<lparr>session := s'\<rparr>,
       [ELog Debug (msgString env msg),
        EInvoke (Service r) (Method r) ?s1 (handlerArg m msg),
        ELog Error (''processMessage Error: '' @ v), EHeartbeat])"
    by (simp add: processPacket_Data [OF assms(1)] assms(2) pm)
  show ?thesis by (simp add: pp split: prod.splits)
qed

text \<open>
  Claim C4, as amended, at the packet for \<open>Echo.Boom\<close>, whose handler panics, followed
  by the packet for \<open>Echo.Say\<close>.
\<close>

theorem handler_panic_recovered_witness:
  "processPackets exEnv exHS exAgent [exBoomPacket, exSayPacket] =
     (exAgent\<lparr>session := exSession\<lparr>LastID := 7\<rparr>\<rparr>,
      [ELog Debug ''Echo.Boom'',
       EInvoke ''Echo'' ''Boom'' (exSession\<lparr>LastID := 5\<rparr>) (RawArg [1]),
       ELog Error ''processMessage Error: boom'',
       EHeartbeat,
       ELog Debug ''Echo.Say'',
       EInvoke ''Echo'' ''Say'' (exSession\<lparr>LastID := 7\<rparr>) (ObjArg ''*SayReq'' [9]),
       EHeartbeat])"
proof -
  let ?r = "\<lparr>ServerType = [], Service = ''Echo'', Method = ''Boom''\<rparr>"
  have a1: "PType exBoomPacket = Data" by (rule ex_packets)
  have a2: "msgDecode exEnv (PData exBoomPacket) = Inr exBoomReq"
    by (simp add: exEnv_fields ex_packets ex_decodes)
  have a3: "MType exBoomReq = Request \<or> MType exBoomReq = Notify" by (simp add: exBoomReq_def)
  have a4: "routeDecode exEnv (Route exBoomReq) = Inr ?r"
    by (simp add: exEnv_fields exBoomReq_def ex_routes)
  have a5: "ServerType ?r = [] \<or> ServerType ?r = appType exEnv" by simp
  have a6: "Lookup exHS (Service ?r) (Method ?r) = Some exBoom" by (simp add: ex_lookups)
  have a7: "raw exBoom \<or> deserialize exEnv (MData exBoomReq) (dataType exBoom) = None"
    by (simp add: exBoom_def)
  have a8: "methodFunc exBoom
      ((session exAgent)\<lparr>LastID := (if MType exBoomReq = Request then ID exBoomReq else 0)\<rparr>)
      (handlerArg exBoom exBoomReq) = (Panics ''boom'', exSession\<lparr>LastID := 5\<rparr>)"
    by (simp add: exBoom_def exAgent_def exBoomReq_def)
  from handler_panic_recovered [OF a1 a2 a3 a4 a5 a6 a7 a8, of "[exSayPacket]"]
  show ?thesis
    by (simp add: exSay_packet exAgent_def exBoomReq_def handlerArg_def exBoom_def
        exEnv_fields)
qed

text \<open>
  Claim C4 as stated fails: the Request with id 5 for \<open>Echo.Boom\<close> panics in its handler;
  the panic is logged and the heartbeat started, and nothing is sent on the agent.
\<close>

theorem handler_panic_no_reply:
  "PType exBoomPacket = Data
   \<and> msgDecode exEnv (PData exBoomPacket) = Inr exBoomReq
   \<and> MType exBoomReq = Request
   \<and> processPacket exEnv exHS exAgent exBoomPacket =
       (exAgent\<lparr>session := exSession\<lparr>LastID := 5\<rparr>\<rparr>,
        [ELog Debug ''Echo.Boom'',
         EInvoke ''Echo'' ''Boom'' (exSession\<lparr>LastID := 5\<rparr>) (RawArg [1]),
         ELog Error ''processMessage Error: boom'',
         EHeartbeat])
   \<and> filter isSend (snd (processPacket exEnv exHS exAgent exBoomPacket)) = []"
  by (simp add: exBoom_packet ex_packets exEnv_fields ex_decodes exAgent_def ex_msgs)

section \<open>Framing across reads\<close>

text \<open>
  Claim C5 fails on the code. The stream \<open>04 00 00 01 41\<close> is one \<^verbatim>\<open>Data\<close> packet with
  the body \<open>41\<close>. Read in one piece, the inner loop of \<^verbatim>\<open>Handle\<close> queues that packet and
  ends with an empty buffer. Read as \<open>04 00 00 01\<close> and then \<open>41\<close>, the first read leaves a
  full header and no body: \<^verbatim>\<open>Unpack\<close> returns no packet, no error and the buffer as it
  was, the loop condition still holds, and the loop queues a \<^verbatim>\<open>nil\<close> packet on every
  iteration without ever ending, so that the second read is never made.
\<close>

theorem split_body_never_read:
  "Handle_reads (Suc n) [] [[4, 0, 0, 1, 0x41]] =
     ([Enqueue (Some \<lparr>PType = Data, PLength = 1, PData = [0x41]\<rparr>)], Some [])
   \<and> Handle_reads n [] [[4, 0, 0, 1], [0x41]] = (replicate n (Enqueue None), None)"
proof -
  have u: "Unpack [4, 0, 0, 1, 0x41] =
      (Some \<lparr>PType = Data, PLength = 1, PData = [0x41]\<rparr>, [], None)"
    by (simp add: Unpack_def HeadLength_def bytesToInt_def Handshake_def Kick_def Data_def Let_def)
  have "Handle_unpack (Suc n) [4, 0, 0, 1, 0x41] =
      ([Enqueue (Some \<lparr>PType = Data, PLength = 1, PData = [0x41]\<rparr>)], Some [])"
    by (cases n) (simp_all add: u HeadLength_def)
  then show ?thesis
    by (simp add: Handle_unpack_stuck)
qed

section \<open>The handshake\<close>

text \<open>
  Claim C6. On a \<^verbatim>\<open>Handshake\<close> packet, \<^verbatim>\<open>processPacket\<close> sets the status to
  \<open>handshake\<close> and sends the packed \<^verbatim>\<open>Handshake\<close> packet whose body is the JSON text
  \<^verbatim>\<open>{"code":200,"sys":{"heartbeat":h}}\<close>, \<open>h\<close> the configured interval in seconds as
  JSON prints it; when the send fails, the error is logged and the agent closed. The
  bytes sent unpack to that packet.
\<close>

theorem handshake_reply:
  assumes "PType p = Handshake"
  shows "processPacket env hs a p =
     (let body = bytesOf (handshakeJSON (heartbeatJSON env));
          resp = fst (Pack \<lparr>PType = Handshake, PLength = length body, PData = body\<rparr>)
      in case agentSend env (a\<lparr>status := statusHandshake\<rparr>) resp of
           None \<Rightarrow> (a\<lparr>status := statusHandshake\<rparr>, [ESend resp])
         | Some e \<Rightarrow> (a\<lparr>status := statusClosed\<rparr>, [ESend resp, ELog Error e, EClose]))
   \<and> handshakeJSON hb =
       ''{'' @ [CHR 0x22] @ ''code'' @ [CHR 0x22] @ '':200,'' @ [CHR 0x22] @ ''sys'' @ [CHR 0x22] @
       '':{'' @ [CHR 0x22] @ ''heartbeat'' @ [CHR 0x22] @ '':'' @ hb @ ''}}''
   \<and> (length (heartbeatJSON env) < 16000000 \<longrightarrow>
        Unpack (fst (Pack \<lparr>PType = Handshake,
                           PLength = length (bytesOf (handshakeJSON (heartbeatJSON env))),
                           PData = bytesOf (handshakeJSON (heartbeatJSON env))\<rparr>)) =
          (Some \<lparr>PType = Handshake,
                 PLength = length (bytesOf (handshakeJSON (heartbeatJSON env))),
                 PData = bytesOf (handshakeJSON (heartbeatJSON env))\<rparr>, [], None))"
proof (intro conjI impI)
  show "processPacket env hs a p =
     (let body = bytesOf (handshakeJSON (heartbeatJSON env));
          resp = fst (Pack \<lparr>PType = Handshake, PLength = length body, PData = body\<rparr>)
      in case agentSend env (a\<lparr>status := statusHandshake\<rparr>) resp of
           None \<Rightarrow> (a\<lparr>status := statusHandshake\<rparr>, [ESend resp])
         | Some e \<Rightarrow> (a\<lparr>status := statusClosed\<rparr>, [ESend resp, ELog Error e, EClose]))"
    using assms
    by (simp add: processPacket_def Pack_def Let_def agent_close_def split: option.splits)
  show "handshakeJSON hb =
       ''{'' @ [CHR 0x22] @ ''code'' @ [CHR 0x22] @ '':200,'' @ [CHR 0x22] @ ''sys'' @ [CHR 0x22] @
       '':{'' @ [CHR 0x22] @ ''heartbeat'' @ [CHR 0x22] @ '':'' @ hb @ ''}}''"
    by (simp add: handshakeJSON_def jsonKey_def)
  assume "length (heartbeatJSON env) < 16000000"
  moreover have "length (bytesOf (handshakeJSON (heartbeatJSON env))) =
      length (heartbeatJSON env) + 33"
    by (simp add: bytesOf_def handshakeJSON_def jsonKey_def)
  ultimately have "length (bytesOf (handshakeJSON (heartbeatJSON env))) < 16777216"
    by linarith
  then show "Unpack (fst (Pack \<lparr>PType = Handshake,
                           PLength = length (bytesOf (handshakeJSON (heartbeatJSON env))),
                           PData = bytesOf (handshakeJSON (heartbeatJSON env))\<rparr>)) =
          (Some \<lparr>PType = Handshake,
                 PLength = length (bytesOf (handshakeJSON (heartbeatJSON env))),
                 PData = bytesOf (handshakeJSON (heartbeatJSON env))\<rparr>, [], None)"
    using Unpack_Pack [of "\<lparr>PType = Handshake,
                           PLength = length (bytesOf (handshakeJSON (heartbeatJSON env))),
                           PData = bytesOf (handshakeJSON (heartbeatJSON env))\<rparr>"]
    by (simp add: Handshake_def Kick_def)
qed

text \<open>
  Claim C6, at an interval of 30 seconds: the reply on a send that succeeds, the reply
  and the close on a send that fails, and the bytes of the reply unpacked.
\<close>

theorem handshake_reply_witness:
  "processPacket exEnv exHS exAgent exHandshakePacket =
     (exAgent\<lparr>status := statusHandshake\<rparr>,
      [ESend [1, 0, 0, 35, 123, 34, 99, 111, 100, 101, 34, 58, 50, 48, 48, 44, 34, 115, 121,
              115, 34, 58, 123, 34, 104, 101, 97, 114, 116, 98, 101, 97, 116, 34, 58, 51, 48,
              125, 125]])
   \<and> processPacket (exEnv\<lparr>agentSend := (\<lambda>a bs. Some ''ClosedAgent'')\<rparr>) exHS exAgent
        exHandshakePacket =
     (exAgent\<lparr>status := statusClosed\<rparr>,
      [ESend [1, 0, 0, 35, 123, 34, 99, 111, 100, 101, 34, 58, 50, 48, 48, 44, 34, 115, 121,
              115, 34, 58, 123, 34, 104, 101, 97, 114, 116, 98, 101, 97, 116, 34, 58, 51, 48,
              125, 125],
       ELog Error ''ClosedAgent'', EClose])
   \<and> Unpack [1, 0, 0, 35, 123, 34, 99, 111, 100, 101, 34, 58, 50, 48, 48, 44, 34, 115, 121,
              115, 34, 58, 123, 34, 104, 101, 97, 114, 116, 98, 101, 97, 116, 34, 58, 51, 48,
              125, 125] =
     (Some \<lparr>PType = Handshake, PLength = 35,
            PData = [123, 34, 99, 111, 100, 101, 34, 58, 50, 48, 48, 44, 34, 115, 121,
                     115, 34, 58, 123, 34, 104, 101, 97, 114, 116, 98, 101, 97, 116, 34, 58,
                     51, 48, 125, 125]\<rparr>, [], None)"
proof -
  define B where "B = bytesOf (handshakeJSON ''30'')"
  have pt: "PType exHandshakePacket = Handshake" by (rule ex_packets)
  have hb: "bytesOf (handshakeJSON ''30'') = B"
    by (simp add: B_def)
  have lenB: "length B = 35" by (simp add: B_def ex_handshake_bytes)
  have len: "length (heartbeatJSON exEnv) < 16000000" by (simp add: exEnv_fields)
  have pk: "fst (Pack \<lparr>PType = Handshake, PLength = 35, PData = B\<rparr>) = [1, 0, 0, 35] @ B"
    by (simp add: Pack_def be24_def lenB Handshake_def)
  note th1 = handshake_reply [OF pt, where env = exEnv and hs = exHS and a = exAgent]
  note th2 = handshake_reply [OF pt,
      where env = "exEnv\<lparr>agentSend := (\<lambda>a bs. Some ''ClosedAgent'')\<rparr>" and hs = exHS
        and a = exAgent]
  from th1 [THEN conjunct1]
  have a: "processPacket exEnv exHS exAgent exHandshakePacket =
      (exAgent\<lparr>status := statusHandshake\<rparr>, [ESend ([1, 0, 0, 35] @ B)])"
    by (simp add: exEnv_fields hb lenB pk Let_def)
  from th2 [THEN conjunct1]
  have b: "processPacket (exEnv\<lparr>agentSend := (\<lambda>a bs. Some ''ClosedAgent'')\<rparr>) exHS
      exAgent exHandshakePacket =
      (exAgent\<lparr>status := statusClosed\<rparr>,
       [ESend ([1, 0, 0, 35] @ B), ELog Error ''ClosedAgent'', EClose])"
    by (simp add: exEnv_fields hb lenB pk Let_def)
  from th1 [THEN conjunct2, THEN conjunct2] len
  have c: "Unpack ([1, 0, 0, 35] @ B) =
      (Some \<lparr>PType = Handshake, PLength = 35, PData = B\<rparr>, [], None)"
    by (simp add: exEnv_fields hb lenB pk)
  from a b c show ?thesis by (simp add: B_def ex_handshake_bytes)
qed

section \<open>LastID\<close>

text \<open>
  Claim C7. For a Request, \<^verbatim>\<open>processMessage\<close> sets \<^verbatim>\<open>LastID\<close> to the message id, for a
  Notify to 0, before anything else: every session handed to a handler or to the cluster
  already has it, it is the session left when no handler ran, and it is the \<^verbatim>\<open>LastID\<close>
  left when the handlers do not write \<^verbatim>\<open>LastID\<close> themselves. Any other message type is
  rejected: one error line, no routing, no handler, the session unchanged.
\<close>

theorem processMessage_LastID:
  "(MType msg = Request \<or> MType msg = Notify \<longrightarrow>
      (\<forall>e\<in>set (snd (processMessage env hs s msg)).
          handed e = None \<or>
          handed e = Some (s\<lparr>LastID := (if MType msg = Request then ID msg else 0)\<rparr>))
      \<and> ((\<forall>e\<in>set (snd (processMessage env hs s msg)). \<not> isInvoke e) \<longrightarrow>
          fst (processMessage env hs s msg) =
            s\<lparr>LastID := (if MType msg = Request then ID msg else 0)\<rparr>)
      \<and> (handlersKeepLastID hs \<longrightarrow>
          LastID (fst (processMessage env hs s msg)) =
            (if MType msg = Request then ID msg else 0)))
   \<and> (MType msg \<noteq> Request \<and> MType msg \<noteq> Notify \<longrightarrow>
        processMessage env hs s msg = (s, [ELog Error ''invalid message type'']))"
proof (intro conjI impI)
  assume "MType msg \<noteq> Request \<and> MType msg \<noteq> Notify"
  then show "processMessage env hs s msg = (s, [ELog Error ''invalid message type''])"
    by (cases "MType msg") (simp_all add: processMessage_def processMessageBody_def recoverPanic_def)
next
  let ?s1 = "s\<lparr>LastID := (if MType msg = Request then ID msg else 0)\<rparr>"
  assume t: "MType msg = Request \<or> MType msg = Notify"
  then have body: "processMessageBody env hs s msg = routeMessage env hs ?s1 msg"
    by (auto simp add: processMessageBody_def)
  obtain s' evs pan where rm: "routeMessage env hs ?s1 msg = (s', evs, pan)"
    by (cases "routeMessage env hs ?s1 msg") auto
  obtain s'' evs' where rp: "recoverPanic (s', evs, pan) = (s'', evs')"
    by (cases "recoverPanic (s', evs, pan)") auto
  have pm: "processMessage env hs s msg = (s'', evs')"
    by (simp add: processMessage_def body rm rp)
  note fact = processMessage_session [OF rm rp]
  show "\<forall>e\<in>set (snd (processMessage env hs s msg)). handed e = None \<or> handed e = Some ?s1"
    using fact by (simp add: pm)
  show "fst (processMessage env hs s msg) = ?s1"
    if "\<forall>e\<in>set (snd (processMessage env hs s msg)). \<not> isInvoke e"
    using fact that by (simp add: pm)
  show "LastID (fst (processMessage env hs s msg)) = (if MType msg = Request then ID msg else 0)"
    if "handlersKeepLastID hs"
    using fact that by (simp add: pm)
qed

text \<open>
  Claim C7, at the request to \<open>Echo.Say\<close> with id 7 and at the same message sent as
  Notify, Response and Push.
\<close>

theorem processMessage_LastID_witness:
  "LastID (fst (processMessage exEnv exHS exSession exSayReq)) = 7
   \<and> LastID (fst (processMessage exEnv exHS exSession (exSayReq\<lparr>MType := Notify\<rparr>))) = 0
   \<and> processMessage exEnv exHS exSession (exSayReq\<lparr>MType := Response\<rparr>) =
       (exSession, [ELog Error ''invalid message type''])
   \<and> processMessage exEnv exHS exSession (exSayReq\<lparr>MType := Push\<rparr>) =
       (exSession, [ELog Error ''invalid message type''])"
proof -
  note th1 = processMessage_LastID [where msg = exSayReq and env = exEnv and hs = exHS
      and s = exSession]
  note th2 = processMessage_LastID [where msg = "exSayReq\<lparr>MType := Notify\<rparr>" and env = exEnv
      and hs = exHS and s = exSession]
  note th3 = processMessage_LastID [where msg = "exSayReq\<lparr>MType := Response\<rparr>" and env = exEnv
      and hs = exHS and s = exSession]
  note th4 = processMessage_LastID [where msg = "exSayReq\<lparr>MType := Push\<rparr>" and env = exEnv
      and hs = exHS and s = exSession]
  from th1 exHS_keeps have a: "LastID (fst (processMessage exEnv exHS exSession exSayReq)) = 7"
    by (simp add: ex_msgs)
  from th2 exHS_keeps
  have b: "LastID (fst (processMessage exEnv exHS exSession (exSayReq\<lparr>MType := Notify\<rparr>))) = 0"
    by simp
  from th3 have c: "processMessage exEnv exHS exSession (exSayReq\<lparr>MType := Response\<rparr>) =
       (exSession, [ELog Error ''invalid message type''])"
    by simp
  from th4 have d: "processMessage exEnv exHS exSession (exSayReq\<lparr>MType := Push\<rparr>) =
       (exSession, [ELog Error ''invalid message type''])"
    by simp
  from a b c d show ?thesis by (intro conjI)
qed

section \<open>Local or remote\<close>

text \<open>
  Claim C8. For a Request or Notify whose route decodes to \<open>r\<close>: when the server type
  of \<open>r\<close> is empty or the local node's, the message goes to \<^verbatim>\<open>localProcess\<close> with the
  server type set to the local one, and the cluster is not called; otherwise the cluster
  is called once, with \<open>r\<close>, and no handler is invoked.
\<close>

theorem processMessage_routing:
  assumes "MType msg = Request \<or> MType msg = Notify"
    and "routeDecode env (Route msg) = Inr r"
  shows "if ServerType r = [] \<or> ServerType r = appType env
     then processMessage env hs s msg =
            (case recoverPanic
                    (localProcess env hs (s\<lparr>LastID := (if MType msg = Request then ID msg else 0)\<rparr>)
                       (r\<lparr>ServerType := appType env\<rparr>) msg) of
               (s', evs) \<Rightarrow> (s', ELog Debug (msgString env msg) # evs))
          \<and> (\<forall>e\<in>set (snd (processMessage env hs s msg)). \<not> isCall e)
     else filter isCall (snd (processMessage env hs s msg)) =
            [ECall Sys r (s\<lparr>LastID := (if MType msg = Request then ID msg else 0)\<rparr>) (MData msg)]
          \<and> (\<forall>e\<in>set (snd (processMessage env hs s msg)). \<not> isInvoke e)"
proof (cases "ServerType r = [] \<or> ServerType r = appType env")
  case True
  let ?s1 = "s\<lparr>LastID := (if MType msg = Request then ID msg else 0)\<rparr>"
  obtain s' evs pan where lp: "localProcess env hs ?s1 (r\<lparr>ServerType := appType env\<rparr>) msg = (s', evs, pan)"
    by (cases "localProcess env hs ?s1 (r\<lparr>ServerType := appType env\<rparr>) msg") auto
  obtain s'' es where rp: "recoverPanic (s', evs, pan) = (s'', es)"
    by (cases "recoverPanic (s', evs, pan)") auto
  have pm: "processMessage env hs s msg = (s'', ELog Debug (msgString env msg) # es)"
    using processMessage_routed [OF assms, of hs s] True lp rp by simp
  from recoverPanic_events [OF rp] localProcess_events [OF lp]
  have "\<forall>e\<in>set es. \<not> isCall e" by auto
  then have "\<forall>e\<in>set (snd (processMessage env hs s msg)). \<not> isCall e"
    by (simp add: pm)
  moreover have "processMessage env hs s msg =
            (case recoverPanic
                    (localProcess env hs ?s1 (r\<lparr>ServerType := appType env\<rparr>) msg) of
               (s', evs) \<Rightarrow> (s', ELog Debug (msgString env msg) # evs))"
    by (simp add: pm lp rp)
  ultimately show ?thesis using True by simp
next
  case False
  let ?s1 = "s\<lparr>LastID := (if MType msg = Request then ID msg else 0)\<rparr>"
  obtain s' evs pan where lp: "remoteProcess env ?s1 r msg = (s', evs, pan)"
    by (cases "remoteProcess env ?s1 r msg") auto
  obtain s'' es where rp: "recoverPanic (s', evs, pan) = (s'', es)"
    by (cases "recoverPanic (s', evs, pan)") auto
  have pm: "processMessage env hs s msg = (s'', ELog Debug (msgString env msg) # es)"
    using processMessage_routed [OF assms, of hs s] False lp rp by simp
  from recoverPanic_events [OF rp] remoteProcess_events [OF lp]
  have "filter isCall es = [ECall Sys r ?s1 (MData msg)] \<and> (\<forall>e\<in>set es. \<not> isInvoke e)" by auto
  then have "filter isCall (snd (processMessage env hs s msg)) = [ECall Sys r ?s1 (MData msg)]
      \<and> (\<forall>e\<in>set (snd (processMessage env hs s msg)). \<not> isInvoke e)"
    by (simp add: pm)
  then show ?thesis using False by simp
qed

text \<open>
  Claim C8, at the routes \<open>chat.room.join\<close> (remote), \<open>Echo.Say\<close> (empty server type)
  and \<open>connector.Echo.Say\<close> (the local type).
\<close>

theorem processMessage_routing_witness:
  "filter isCall (snd (processMessage exEnv exHS exSession exJoinReq)) =
     [ECall Sys \<lparr>ServerType = ''chat'', Service = ''room'', Method = ''join''\<rparr>
        (exSession\<lparr>LastID := 3\<rparr>) [1, 2]]
   \<and> processMessage exEnv exHS exSession exSayReq =
     (exSession\<lparr>LastID := 7\<rparr>,
      [ELog Debug ''Echo.Say'',
       EInvoke ''Echo'' ''Say'' (exSession\<lparr>LastID := 7\<rparr>) (ObjArg ''*SayReq'' [9])])
   \<and> processMessage exEnv exHS exSession (exSayReq\<lparr>Route := ''connector.Echo.Say''\<rparr>) =
     (exSession\<lparr>LastID := 7\<rparr>,
      [ELog Debug ''connector.Echo.Say'',
       EInvoke ''Echo'' ''Say'' (exSession\<lparr>LastID := 7\<rparr>) (ObjArg ''*SayReq'' [9])])"
proof -
  let ?rj = "\<lparr>ServerType = ''chat'', Service = ''room'', Method = ''join''\<rparr>"
  let ?rs = "\<lparr>ServerType = [], Service = ''Echo'', Method = ''Say''\<rparr>"
  let ?rc = "\<lparr>ServerType = ''connector'', Service = ''Echo'', Method = ''Say''\<rparr>"
  let ?mc = "exSayReq\<lparr>Route := ''connector.Echo.Say''\<rparr>"
  have tj: "MType exJoinReq = Request \<or> MType exJoinReq = Notify" by (simp add: ex_msgs)
  have dj: "routeDecode exEnv (Route exJoinReq) = Inr ?rj"
    by (simp add: exEnv_fields ex_msgs ex_routes)
  have ts: "MType exSayReq = Request \<or> MType exSayReq = Notify" by (simp add: ex_msgs)
  have ds: "routeDecode exEnv (Route exSayReq) = Inr ?rs"
    by (simp add: exEnv_fields ex_msgs ex_routes)
  have tc: "MType ?mc = Request \<or> MType ?mc = Notify" by (simp add: ex_msgs)
  have dc: "routeDecode exEnv (Route ?mc) = Inr ?rc"
    by (simp add: exEnv_fields route_Decode_def)
  have lp: "recoverPanic (localProcess exEnv exHS (exSession\<lparr>LastID := 7\<rparr>)
        \<lparr>ServerType = ''connector'', Service = ''Echo'', Method = ''Say''\<rparr> m) =
      (exSession\<lparr>LastID := 7\<rparr>,
       [EInvoke ''Echo'' ''Say'' (exSession\<lparr>LastID := 7\<rparr>) (ObjArg ''*SayReq'' (MData m))])"
    if "MData m \<noteq> []" for m
    using that
    by (simp add: localProcess_cases ex_lookups exEnv_fields callMethod_def handlerArg_def
        recoverPanic_def exSay_def)
  from processMessage_routing [OF tj dj, of exHS exSession]
  have a: "filter isCall (snd (processMessage exEnv exHS exSession exJoinReq)) =
     [ECall Sys ?rj (exSession\<lparr>LastID := 3\<rparr>) [1, 2]]"
    by (simp add: exEnv_fields ex_msgs)
  from processMessage_routing [OF ts ds, of exHS exSession]
  have b: "processMessage exEnv exHS exSession exSayReq =
     (exSession\<lparr>LastID := 7\<rparr>,
      [ELog Debug ''Echo.Say'',
       EInvoke ''Echo'' ''Say'' (exSession\<lparr>LastID := 7\<rparr>) (ObjArg ''*SayReq'' [9])])"
    by (simp add: exEnv_fields ex_msgs lp)
  from processMessage_routing [OF tc dc, of exHS exSession]
  have c: "processMessage exEnv exHS exSession ?mc =
     (exSession\<lparr>LastID := 7\<rparr>,
      [ELog Debug ''connector.Echo.Say'',
       EInvoke ''Echo'' ''Say'' (exSession\<lparr>LastID := 7\<rparr>) (ObjArg ''*SayReq'' [9])])"
    by (simp add: exEnv_fields ex_msgs lp)
  from a b c show ?thesis by (intro conjI)
qed

end
